theory Spec2Isabelle
  imports Main
begin

section \<open>JavaScript values\<close>

text \<open>
  The library is generic over the values it carries, and it inspects them at run time
  (\<^verbatim>\<open>typeof\<close>, \<^verbatim>\<open>instanceof Error\<close>, \<^verbatim>\<open>instanceof Promise\<close>,
  \<^verbatim>\<open>=== undefined\<close>, \<^verbatim>\<open>'message' in err\<close>). The values are therefore one
  datatype. The fragment covered:
  \<^item> the primitives \<^verbatim>\<open>undefined\<close>, \<^verbatim>\<open>null\<close>, booleans, integral Numbers
    (floating point is left out, and so is the exponent notation of the very large ones),
    BigInts, strings, Symbols (with their description);
  \<^item> native Error instances as the Error constructors make them: a name and a string message;
  \<^item> plain objects: their own enumerable string-keyed data properties, in enumeration order
    (keys are meant to be distinct; a lookup takes the first);
  \<^item> arrays;
  \<^item> native Promise instances, given by how they eventually settle.
  Accessor properties, functions as values, proxies, cyclic structures and objects with
  a callable \<^verbatim>\<open>toJSON\<close> or \<^verbatim>\<open>toString\<close> of their own are outside the fragment.
\<close>

datatype ('a, 'e) settlement = Fulfilled 'a | Rejected 'e | Unsettled

datatype jsval =
    JUndefined
  | JNull
  | JBool bool
  | JNum int
  | JBigInt int
  | JStr string
  | JSymbol string
  | JError string string
  | JObj "(string \<times> jsval) list"
  | JArr "jsval list"
  | JPromise "(jsval, jsval) settlement"

type_synonym 'a promise = "('a, jsval) settlement"

text \<open>A call either returns or throws; the thrown value is any JavaScript value.\<close>

datatype 'a completion = Returns 'a | Throws jsval

text \<open>A function declared \<^verbatim>\<open>X | Promise<X>\<close> hands back one or the other.\<close>

datatype 'a maybe_async = Immediate 'a | Pending "'a promise"

definition bind_completion :: "'a completion \<Rightarrow> ('a \<Rightarrow> 'b completion) \<Rightarrow> 'b completion" where
  "bind_completion c f = (case c of Returns x \<Rightarrow> f x | Throws e \<Rightarrow> Throws e)"

text \<open>\<^verbatim>\<open>x instanceof Promise\<close>\<close>

fun instanceof_Promise :: "jsval \<Rightarrow> bool" where
  "instanceof_Promise (JPromise p) = True"
| "instanceof_Promise v = False"

text \<open>
  \<^verbatim>\<open>p.then(f)\<close> and \<^verbatim>\<open>p.catch(f)\<close> for callbacks that return a value that is
  not a thenable (all callbacks of the library build an object literal, a tuple or a wrapper
  instance): the new promise fulfils with what the callback returns and rejects with what
  it throws.
\<close>

definition promise_then :: "'a promise \<Rightarrow> ('a \<Rightarrow> 'b completion) \<Rightarrow> 'b promise" where
  "promise_then p f =
     (case p of
        Fulfilled v \<Rightarrow> (case f v of Returns r \<Rightarrow> Fulfilled r | Throws e \<Rightarrow> Rejected e)
      | Rejected e \<Rightarrow> Rejected e
      | Unsettled \<Rightarrow> Unsettled)"

definition promise_catch :: "'a promise \<Rightarrow> (jsval \<Rightarrow> 'a completion) \<Rightarrow> 'a promise" where
  "promise_catch p f =
     (case p of
        Fulfilled v \<Rightarrow> Fulfilled v
      | Rejected e \<Rightarrow> (case f e of Returns r \<Rightarrow> Fulfilled r | Throws e' \<Rightarrow> Rejected e')
      | Unsettled \<Rightarrow> Unsettled)"

section \<open>The built-ins the library calls\<close>

text \<open>
  \<^verbatim>\<open>typeof\<close>, string conversion and \<^verbatim>\<open>JSON.stringify\<close> belong to the language,
  not to the repository. They are written out after ECMA-262 on the fragment of values
  above, so that the library's functions can be evaluated. The texts of the engine's
  TypeErrors are those of V8; no theorem depends on them.
\<close>

fun typeof_js :: "jsval \<Rightarrow> string" where
  "typeof_js JUndefined = ''undefined''"
| "typeof_js JNull = ''object''"
| "typeof_js (JBool b) = ''boolean''"
| "typeof_js (JNum n) = ''number''"
| "typeof_js (JBigInt n) = ''bigint''"
| "typeof_js (JStr s) = ''string''"
| "typeof_js (JSymbol d) = ''symbol''"
| "typeof_js (JError n m) = ''object''"
| "typeof_js (JObj ps) = ''object''"
| "typeof_js (JArr xs) = ''object''"
| "typeof_js (JPromise p) = ''object''"

text \<open>\<^verbatim>\<open>x instanceof Error\<close>\<close>

fun instanceof_Error :: "jsval \<Rightarrow> bool" where
  "instanceof_Error (JError n m) = True"
| "instanceof_Error v = False"

text \<open>
  \<^verbatim>\<open>'message' in x\<close> and \<^verbatim>\<open>x.message\<close> for an object \<open>x\<close>: an Error has a message
  (its own or the prototype's empty one), a plain object has the property when it is among
  its own, and no other prototype of the fragment defines it. A missing property reads as
  \<^verbatim>\<open>undefined\<close>.
\<close>

fun has_message :: "jsval \<Rightarrow> bool" where
  "has_message (JError n m) = True"
| "has_message (JObj ps) = (map_of ps ''message'' \<noteq> None)"
| "has_message v = False"

fun get_message :: "jsval \<Rightarrow> jsval" where
  "get_message (JError n m) = JStr m"
| "get_message (JObj ps) = (case map_of ps ''message'' of Some v \<Rightarrow> v | None \<Rightarrow> JUndefined)"
| "get_message v = JUndefined"

definition TypeError :: "string \<Rightarrow> jsval" where
  "TypeError m = JError ''TypeError'' m"

text \<open>Decimal digits of an integral Number or a BigInt.\<close>

fun digits_of_nat :: "nat \<Rightarrow> string" where
  "digits_of_nat n =
     (if n < 10 then [char_of (48 + n)]
      else digits_of_nat (n div 10) @ [char_of (48 + n mod 10)])"

definition digits_of_int :: "int \<Rightarrow> string" where
  "digits_of_int i = (if i < 0 then CHR ''-'' # digits_of_nat (nat (- i)) else digits_of_nat (nat i))"

text \<open>\<^verbatim>\<open>Error.prototype.toString\<close>\<close>

definition Error_toString :: "string \<Rightarrow> string \<Rightarrow> string" where
  "Error_toString name msg =
     (if name = [] then msg else if msg = [] then name else name @ '': '' @ msg)"

text \<open>
  The abstract operation ToString, which a template literal and \<^verbatim>\<open>new Error(m)\<close>
  apply. It throws on a Symbol. An array is joined with commas
  (\<^verbatim>\<open>Array.prototype.join\<close>: \<^verbatim>\<open>undefined\<close> and \<^verbatim>\<open>null\<close> elements give the
  empty string, every other element its ToString). A plain object gives
  \<^verbatim>\<open>[object Object]\<close> through \<^verbatim>\<open>Object.prototype.toString\<close>, unless a data
  property of its own shadows \<^verbatim>\<open>toString\<close>: that one is not callable, \<^verbatim>\<open>valueOf\<close>
  gives the object back, and the conversion throws.
\<close>

fun ToString :: "jsval \<Rightarrow> string completion"
  and Array_join :: "jsval list \<Rightarrow> string completion"
  and join_element :: "jsval \<Rightarrow> string completion" where
  "ToString JUndefined = Returns ''undefined''"
| "ToString JNull = Returns ''null''"
| "ToString (JBool b) = Returns (if b then ''true'' else ''false'')"
| "ToString (JNum n) = Returns (digits_of_int n)"
| "ToString (JBigInt n) = Returns (digits_of_int n)"
| "ToString (JStr s) = Returns s"
| "ToString (JSymbol d) = Throws (TypeError ''Cannot convert a Symbol value to a string'')"
| "ToString (JError n m) = Returns (Error_toString n m)"
| "ToString (JObj ps) =
     (if map_of ps ''toString'' \<noteq> None
      then Throws (TypeError ''Cannot convert object to primitive value'')
      else Returns ''[object Object]'')"
| "ToString (JArr xs) = Array_join xs"
| "ToString (JPromise p) = Returns ''[object Promise]''"
| "Array_join [] = Returns []"
| "Array_join [x] = join_element x"
| "Array_join (x # y # ys) =
     (case join_element x of
        Throws e \<Rightarrow> Throws e
      | Returns s \<Rightarrow>
          (case Array_join (y # ys) of
             Throws e \<Rightarrow> Throws e
           | Returns r \<Rightarrow> Returns (s @ '','' @ r)))"
| "join_element JUndefined = Returns []"
| "join_element JNull = Returns []"
| "join_element (JBool b) = ToString (JBool b)"
| "join_element (JNum n) = ToString (JNum n)"
| "join_element (JBigInt n) = ToString (JBigInt n)"
| "join_element (JStr s) = ToString (JStr s)"
| "join_element (JSymbol d) = ToString (JSymbol d)"
| "join_element (JError n m) = ToString (JError n m)"
| "join_element (JObj ps) = ToString (JObj ps)"
| "join_element (JArr xs) = ToString (JArr xs)"
| "join_element (JPromise p) = ToString (JPromise p)"

text \<open>
  The function \<^verbatim>\<open>String(x)\<close>: a Symbol gives its descriptive string, everything else
  goes through ToString.
\<close>

definition String_js :: "jsval \<Rightarrow> string completion" where
  "String_js v = (case v of JSymbol d \<Rightarrow> Returns (''Symbol('' @ d @ '')'') | _ \<Rightarrow> ToString v)"

text \<open>
  \<^verbatim>\<open>new Error(m)\<close>: no message property is set for \<^verbatim>\<open>undefined\<close> (the prototype's
  empty message shows through); otherwise the message is ToString of the argument.
\<close>

definition new_Error :: "jsval \<Rightarrow> jsval completion" where
  "new_Error m =
     (if m = JUndefined then Returns (JError ''Error'' [])
      else (case ToString m of
              Throws e \<Rightarrow> Throws e
            | Returns s \<Rightarrow> Returns (JError ''Error'' s)))"

text \<open>
  \<^verbatim>\<open>JSON.stringify(x)\<close> with one argument. QuoteJSONString escapes the quote, the
  backslash and the control characters; characters are bytes here, and the bytes of a
  character beyond ASCII pass through.
\<close>

definition hex_digit :: "nat \<Rightarrow> char" where
  "hex_digit n = (if n < 10 then char_of (48 + n) else char_of (87 + n))"

definition json_escape :: "char \<Rightarrow> string" where
  "json_escape c =
     (let n = (of_char c :: nat) in
      if n = 8 then [CHR 0x5C, CHR ''b'']
      else if n = 9 then [CHR 0x5C, CHR ''t'']
      else if n = 10 then [CHR 0x5C, CHR ''n'']
      else if n = 12 then [CHR 0x5C, CHR ''f'']
      else if n = 13 then [CHR 0x5C, CHR ''r'']
      else if n = 34 then [CHR 0x5C, CHR 0x22]
      else if n = 92 then [CHR 0x5C, CHR 0x5C]
      else if n < 32 then
        [CHR 0x5C, CHR ''u'', CHR ''0'', CHR ''0'', hex_digit (n div 16), hex_digit (n mod 16)]
      else [c])"

definition QuoteJSONString :: "string \<Rightarrow> string" where
  "QuoteJSONString s = CHR 0x22 # concat (map json_escape s) @ [CHR 0x22]"

fun join_comma :: "string list \<Rightarrow> string" where
  "join_comma [] = []"
| "join_comma [s] = s"
| "join_comma (s # t # ts) = s @ '','' @ join_comma (t # ts)"

text \<open>
  SerializeJSONProperty gives \<open>None\<close> for \<^verbatim>\<open>undefined\<close> (the value is not
  serializable: \<^verbatim>\<open>undefined\<close> and Symbols), and throws a TypeError on a BigInt. A
  property whose value is not serializable is left out of an object and written
  \<^verbatim>\<open>null\<close> in an array. An Error and a Promise have no enumerable property of their own.
\<close>

fun SerializeJSONProperty :: "jsval \<Rightarrow> string option completion"
  and SerializeJSONObject :: "(string \<times> jsval) list \<Rightarrow> string list completion"
  and SerializeJSONArray :: "jsval list \<Rightarrow> string list completion" where
  "SerializeJSONProperty JUndefined = Returns None"
| "SerializeJSONProperty JNull = Returns (Some ''null'')"
| "SerializeJSONProperty (JBool b) = Returns (Some (if b then ''true'' else ''false''))"
| "SerializeJSONProperty (JNum n) = Returns (Some (digits_of_int n))"
| "SerializeJSONProperty (JBigInt n) = Throws (TypeError ''Do not know how to serialize a BigInt'')"
| "SerializeJSONProperty (JStr s) = Returns (Some (QuoteJSONString s))"
| "SerializeJSONProperty (JSymbol d) = Returns None"
| "SerializeJSONProperty (JError n m) = Returns (Some ''{}'')"
| "SerializeJSONProperty (JObj ps) =
     (case SerializeJSONObject ps of
        Throws e \<Rightarrow> Throws e
      | Returns partial \<Rightarrow> Returns (Some (''{'' @ join_comma partial @ ''}'')))"
| "SerializeJSONProperty (JArr xs) =
     (case SerializeJSONArray xs of
        Throws e \<Rightarrow> Throws e
      | Returns partial \<Rightarrow> Returns (Some (''['' @ join_comma partial @ '']'')))"
| "SerializeJSONProperty (JPromise p) = Returns (Some ''{}'')"
| "SerializeJSONObject [] = Returns []"
| "SerializeJSONObject ((k, v) # ps) =
     (case SerializeJSONProperty v of
        Throws e \<Rightarrow> Throws e
      | Returns strP \<Rightarrow>
          (case SerializeJSONObject ps of
             Throws e \<Rightarrow> Throws e
           | Returns partial \<Rightarrow>
               Returns (case strP of
                          None \<Rightarrow> partial
                        | Some str \<Rightarrow> (QuoteJSONString k @ '':'' @ str) # partial)))"
| "SerializeJSONArray [] = Returns []"
| "SerializeJSONArray (x # xs) =
     (case SerializeJSONProperty x of
        Throws e \<Rightarrow> Throws e
      | Returns strP \<Rightarrow>
          (case SerializeJSONArray xs of
             Throws e \<Rightarrow> Throws e
           | Returns partial \<Rightarrow>
               Returns ((case strP of None \<Rightarrow> ''null'' | Some str \<Rightarrow> str) # partial)))"

definition JSON_stringify :: "jsval \<Rightarrow> jsval completion" where
  "JSON_stringify v =
     (case SerializeJSONProperty v of
        Throws e \<Rightarrow> Throws e
      | Returns None \<Rightarrow> Returns JUndefined
      | Returns (Some s) \<Rightarrow> Returns (JStr s))"

section \<open>The Error Normalizer (src/rustify/index.ts)\<close>

text \<open>
  \<^verbatim>\<open>
  function convertErrorToString(err: unknown): string {
      if (typeof err === 'string') { return err; }
      if (err instanceof Error) { return err.message; }
      if (typeof err === 'object' && err !== null && 'message' in err &&
          typeof (err as any).message === 'string') { return (err as any).message; }
      try { return JSON.stringify(err); } catch (e) { return String(err); }
  }\<close>
  The declared result is \<^verbatim>\<open>string\<close>; what is returned is whatever
  \<^verbatim>\<open>JSON.stringify\<close> returns, so the model's result is a value.
\<close>

definition convertErrorToString :: "jsval \<Rightarrow> jsval completion" where
  "convertErrorToString err =
     (if typeof_js err = ''string'' then Returns err
      else if instanceof_Error err then Returns (get_message err)
      else if typeof_js err = ''object'' \<and> err \<noteq> JNull \<and> has_message err
              \<and> typeof_js (get_message err) = ''string''
      then Returns (get_message err)
      else (case JSON_stringify err of
              Returns r \<Rightarrow> Returns r
            | Throws e \<Rightarrow>
                (case String_js err of
                   Returns s \<Rightarrow> Returns (JStr s)
                 | Throws e' \<Rightarrow> Throws e')))"

section \<open>Outcome and Result (src/rustify/index.ts)\<close>

text \<open>
  \<^verbatim>\<open>
  type OutcomeOk<T> = { value: T };
  type OutcomeErr<T> = { error: T };
  export type SerializableOutcome<T> = (OutcomeOk<T> | OutcomeErr<string>) & { ok: boolean };
  export type Outcome<T, E> = OutcomeOk<T> | OutcomeErr<E>;\<close>
  The discriminant is which keys the object has (\<^verbatim>\<open>'value' in outcome\<close>), so an
  outcome is modelled by its three possible keys, each present or not. A key that is not
  there reads as \<^verbatim>\<open>undefined\<close>; \<^verbatim>\<open>'k' in o\<close> asks whether it is there.
\<close>

record Outcome =
  value_slot :: "jsval option"
  error_slot :: "jsval option"
  ok_flag :: "bool option"

definition OutcomeOk :: "jsval \<Rightarrow> Outcome" where
  "OutcomeOk v = \<lparr>value_slot = Some v, error_slot = None, ok_flag = None\<rparr>"

definition OutcomeErr :: "jsval \<Rightarrow> Outcome" where
  "OutcomeErr e = \<lparr>value_slot = None, error_slot = Some e, ok_flag = None\<rparr>"

definition get_value :: "Outcome \<Rightarrow> jsval" where
  "get_value outcome = (case value_slot outcome of Some v \<Rightarrow> v | None \<Rightarrow> JUndefined)"

definition get_error :: "Outcome \<Rightarrow> jsval" where
  "get_error outcome = (case error_slot outcome of Some e \<Rightarrow> e | None \<Rightarrow> JUndefined)"

text \<open>
  \<^verbatim>\<open>
  const isOk = (outcome) => 'value' in outcome || ('ok' in outcome && outcome.ok === true);
  const isErr = (outcome) => 'error' in outcome || ('ok' in outcome && outcome.ok === false);\<close>
\<close>

fun in_js :: "'a option \<Rightarrow> bool" where
  "in_js None = False"
| "in_js (Some x) = True"

definition isOk :: "Outcome \<Rightarrow> bool" where
  "isOk outcome = (in_js (value_slot outcome) \<or> (in_js (ok_flag outcome) \<and> ok_flag outcome = Some True))"

definition isErr :: "Outcome \<Rightarrow> bool" where
  "isErr outcome = (in_js (error_slot outcome) \<or> (in_js (ok_flag outcome) \<and> ok_flag outcome = Some False))"

text \<open>The class \<^verbatim>\<open>Result\<close> has one private field, \<^verbatim>\<open>outcome\<close>, set by the constructor.\<close>

datatype Result = Result (outcome: Outcome)

text \<open>
  \<^verbatim>\<open>
  export const Ok = (value) => new Result({ value });
  export const Err = (error) => new Result({ error });\<close>
\<close>

definition Ok :: "jsval \<Rightarrow> Result" where
  "Ok v = Result (OutcomeOk v)"

definition Err :: "jsval \<Rightarrow> Result" where
  "Err e = Result (OutcomeErr e)"

definition Result_isOk :: "Result \<Rightarrow> bool" where
  "Result_isOk this = isOk (outcome this)"

definition Result_isErr :: "Result \<Rightarrow> bool" where
  "Result_isErr this = isErr (outcome this)"

text \<open>
  \<^verbatim>\<open>
  unwrap() {
      if (isOk(this.outcome)) { return this.outcome.value; }
      throw new Error(`Attempted to unwrap an 'Err' result: ${this.outcome.error}`);
  }\<close>
  The template literal applies ToString to the failure value, which can throw itself.
\<close>

definition unwrap_message :: "string \<Rightarrow> string" where
  "unwrap_message s = ''Attempted to unwrap an '' @ [CHR 0x27] @ ''Err'' @ [CHR 0x27] @ '' result: '' @ s"

definition Result_unwrap :: "Result \<Rightarrow> jsval completion" where
  "Result_unwrap this =
     (if isOk (outcome this) then Returns (get_value (outcome this))
      else (case ToString (get_error (outcome this)) of
              Throws e \<Rightarrow> Throws e
            | Returns s \<Rightarrow> Throws (JError ''Error'' (unwrap_message s))))"

text \<open>
  \<^verbatim>\<open>
  unwrapErr() {
      if (isErr(this.outcome)) { return this.outcome.error; }
      throw new Error('Attempted to unwrap `Err` from an `Ok` result.');
  }\<close>
\<close>

definition Result_unwrapErr :: "Result \<Rightarrow> jsval completion" where
  "Result_unwrapErr this =
     (if isErr (outcome this) then Returns (get_error (outcome this))
      else Throws (JError ''Error'' ''Attempted to unwrap `Err` from an `Ok` result.''))"

text \<open>
  \<^verbatim>\<open>
  map(transform) {
      if (isOk(this.outcome)) {
          const result = transform(this.outcome.value);
          if (result instanceof Promise) { return result.then(value => Ok(value)); }
          return Ok(result);
      }
      return new Result(this.outcome);
  }\<close>
\<close>

definition Result_map ::
  "Result \<Rightarrow> (jsval \<Rightarrow> jsval completion) \<Rightarrow> Result maybe_async completion" where
  "Result_map this transform =
     (if isOk (outcome this) then
        (case transform (get_value (outcome this)) of
           Throws e \<Rightarrow> Throws e
         | Returns (JPromise p) \<Rightarrow> Returns (Pending (promise_then p (\<lambda>v. Returns (Ok v))))
         | Returns result \<Rightarrow> Returns (Immediate (Ok result)))
      else Returns (Immediate (Result (outcome this))))"

text \<open>
  \<^verbatim>\<open>
  andThen(transform) {
      if (isOk(this.outcome)) { return transform(this.outcome.value); }
      return Err(this.outcome.error);
  }\<close>
  The transform returns a Result or a Promise of one, and may throw.
\<close>

definition Result_andThen ::
  "Result \<Rightarrow> (jsval \<Rightarrow> Result maybe_async completion) \<Rightarrow> Result maybe_async completion" where
  "Result_andThen this transform =
     (if isOk (outcome this) then transform (get_value (outcome this))
      else Returns (Immediate (Err (get_error (outcome this)))))"

text \<open>
  A method call \<^verbatim>\<open>e.m(...)\<close> on the outcome of an expression that should be a Result:
  nothing is called when the expression threw, and a Promise has no such method.
\<close>

definition call_on_Result ::
  "Result maybe_async completion \<Rightarrow> (Result \<Rightarrow> 'a completion) \<Rightarrow> 'a completion" where
  "call_on_Result c method =
     (case c of
        Throws e \<Rightarrow> Throws e
      | Returns (Immediate r) \<Rightarrow> method r
      | Returns (Pending p) \<Rightarrow> Throws (TypeError ''not a function''))"

text \<open>A synchronous Result-returning function, seen at the type \<^verbatim>\<open>andThen\<close> takes.\<close>

definition synchronous :: "(jsval \<Rightarrow> Result completion) \<Rightarrow> jsval \<Rightarrow> Result maybe_async completion" where
  "synchronous f x = (case f x of Throws e \<Rightarrow> Throws e | Returns r \<Rightarrow> Returns (Immediate r))"

text \<open>
  \<^verbatim>\<open>
  static From(input) {
      if (input instanceof Promise) {
          return input.then(result => {
              if (isOk(result)) { const value = result.value; return Ok(value); }
              else { return Err(new Error(result.error)); }
          }).catch(err => Err(new Error(convertErrorToString(err))));
      } else {
          if (isOk(input)) { const value = input.value; return new Result({ value }); }
          else { return new Result({ error: new Error(input.error) }); }
      }
  }\<close>
\<close>

definition Result_From :: "Outcome maybe_async \<Rightarrow> Result maybe_async completion" where
  "Result_From input =
     (case input of
        Pending p \<Rightarrow>
          Returns (Pending (promise_catch
            (promise_then p (\<lambda>result.
               if isOk result then Returns (Ok (get_value result))
               else (case new_Error (get_error result) of
                       Throws e \<Rightarrow> Throws e
                     | Returns err \<Rightarrow> Returns (Err err))))
            (\<lambda>err. case convertErrorToString err of
                      Throws e \<Rightarrow> Throws e
                    | Returns s \<Rightarrow>
                        (case new_Error s of
                           Throws e \<Rightarrow> Throws e
                         | Returns err' \<Rightarrow> Returns (Err err')))))
      | Immediate input' \<Rightarrow>
          (if isOk input' then Returns (Immediate (Result (OutcomeOk (get_value input'))))
           else (case new_Error (get_error input') of
                   Throws e \<Rightarrow> Throws e
                 | Returns err \<Rightarrow> Returns (Immediate (Result (OutcomeErr err))))))"

section \<open>The builders (src/rustify/index.ts)\<close>

text \<open>
  The operation is a function of no argument that is called once: it is given by what
  that call does, return a value (a Promise or not) or throw.
  \<^verbatim>\<open>
  export function buildSerializableOutcome(operation) {
      try {
          const result = operation();
          if (result instanceof Promise) {
              return result.then((value) => ({ value, ok: true }))
                           .catch((err) => ({ error: convertErrorToString(err), ok: false }));
          }
          return { value: result, ok: true };
      } catch (err) {
          const error = convertErrorToString(err);
          return { error, ok: false };
      }
  }\<close>
\<close>

definition serializable_ok :: "jsval \<Rightarrow> Outcome" where
  "serializable_ok v = \<lparr>value_slot = Some v, error_slot = None, ok_flag = Some True\<rparr>"

definition serializable_error :: "jsval \<Rightarrow> Outcome" where
  "serializable_error e = \<lparr>value_slot = None, error_slot = Some e, ok_flag = Some False\<rparr>"

definition buildSerializableOutcome :: "jsval completion \<Rightarrow> Outcome maybe_async completion" where
  "buildSerializableOutcome operation =
     (case operation of
        Returns (JPromise p) \<Rightarrow>
          Returns (Pending (promise_catch
            (promise_then p (\<lambda>v. Returns (serializable_ok v)))
            (\<lambda>err. case convertErrorToString err of
                      Throws e \<Rightarrow> Throws e
                    | Returns s \<Rightarrow> Returns (serializable_error s))))
      | Returns result \<Rightarrow> Returns (Immediate (serializable_ok result))
      | Throws err \<Rightarrow>
          (case convertErrorToString err of
             Throws e \<Rightarrow> Throws e
           | Returns error \<Rightarrow> Returns (Immediate (serializable_error error))))"

text \<open>
  \<^verbatim>\<open>
  export function buildResult(operation) {
      try {
          const result = operation();
          if (result instanceof Promise) {
              return result.then(value => Ok(value)).catch((err) => Err(err));
          }
          return Ok(result);
      } catch (err) {
          return Err(err);
      }
  }\<close>
\<close>

definition buildResult :: "jsval completion \<Rightarrow> Result maybe_async" where
  "buildResult operation =
     (case operation of
        Returns (JPromise p) \<Rightarrow>
          Pending (promise_catch (promise_then p (\<lambda>v. Returns (Ok v))) (\<lambda>err. Returns (Err err)))
      | Returns result \<Rightarrow> Immediate (Ok result)
      | Throws err \<Rightarrow> Immediate (Err err))"

section \<open>The tuple bridge (src/goify/index.ts)\<close>

text \<open>
  \<^verbatim>\<open>goify\<close> is the overloaded function of src/goify/index.ts; \<^verbatim>\<open>goifySync\<close> is
  the synchronous companion, from the version of the module that exports the two apart.
  \<^verbatim>\<open>
  export type GoifyResult<T, E = Error> = [T, null] | [null, E];
  export function goify(operation) {
      try {
          const result = operation();
          if (result instanceof Promise) {
              return result.then((data) => [data, null])
                           .catch((caughtError) => [null, caughtError]);
          } else { return [result, null]; }
      } catch (caughtError) { return [null, caughtError]; }
  }
  export const goifySync = (syncOperation) => {
      try { const result = syncOperation(); return [result, null]; }
      catch (caughtError) { return [null, caughtError]; }
  };\<close>
\<close>

type_synonym GoifyResult = "jsval \<times> jsval"

definition goify :: "jsval completion \<Rightarrow> GoifyResult maybe_async" where
  "goify operation =
     (case operation of
        Returns (JPromise p) \<Rightarrow>
          Pending (promise_catch
            (promise_then p (\<lambda>data. Returns (data, JNull)))
            (\<lambda>caughtError. Returns (JNull, caughtError)))
      | Returns result \<Rightarrow> Immediate (result, JNull)
      | Throws caughtError \<Rightarrow> Immediate (JNull, caughtError))"

definition goifySync :: "jsval completion \<Rightarrow> GoifyResult" where
  "goifySync syncOperation =
     (case syncOperation of
        Returns result \<Rightarrow> (result, JNull)
      | Throws caughtError \<Rightarrow> (JNull, caughtError))"

section \<open>Option (src/rustify/index.ts)\<close>

text \<open>
  The class has one private field, \<^verbatim>\<open>value?: T\<close>; an unset field reads as
  \<^verbatim>\<open>undefined\<close>, which is all the class ever tests.
\<close>

datatype Option = Option (slot: jsval)

text \<open>
  \<^verbatim>\<open>constructor(value?) { if (value !== undefined && value !== null) { this.value = value; } }\<close>
\<close>

definition new_Option :: "jsval \<Rightarrow> Option" where
  "new_Option v = (if v \<noteq> JUndefined \<and> v \<noteq> JNull then Option v else Option JUndefined)"

definition isNone :: "jsval \<Rightarrow> bool" where
  "isNone v = (v = JUndefined)"

definition isSome :: "jsval \<Rightarrow> bool" where
  "isSome v = (v \<noteq> JUndefined)"

definition Option_isSome :: "Option \<Rightarrow> bool" where
  "Option_isSome this = isSome (slot this)"

definition Option_isNone :: "Option \<Rightarrow> bool" where
  "Option_isNone this = isNone (slot this)"

definition Some_js :: "jsval \<Rightarrow> Option" where
  "Some_js v = new_Option v"

definition None_js :: "Option" where
  "None_js = new_Option JUndefined"

text \<open>
  \<^verbatim>\<open>take() { const option = new Option(this.value); this.value = undefined; return option; }\<close>
  The method mutates the receiver: the model returns the new Option together with the
  receiver's state after the call.
\<close>

definition Option_take :: "Option \<Rightarrow> Option \<times> Option" where
  "Option_take this = (new_Option (slot this), Option JUndefined)"

text \<open>
  \<^verbatim>\<open>
  map(func) {
      if (isSome(this.value)) {
          const result = func(this.value);
          if (result instanceof Promise) { return result.then((res) => new Option(res)); }
          return new Option(result);
      }
      return None();
  }\<close>
\<close>

definition Option_map ::
  "Option \<Rightarrow> (jsval \<Rightarrow> jsval completion) \<Rightarrow> Option maybe_async completion" where
  "Option_map this func =
     (if isSome (slot this) then
        (case func (slot this) of
           Throws e \<Rightarrow> Throws e
         | Returns (JPromise p) \<Rightarrow> Returns (Pending (promise_then p (\<lambda>res. Returns (new_Option res))))
         | Returns result \<Rightarrow> Returns (Immediate (new_Option result)))
      else Returns (Immediate None_js))"

text \<open>
  \<^verbatim>\<open>
  unwrap() {
      if (isSome(this.value)) { return this.value; }
      throw new Error("Attempted to unwrap a 'None' Option. No value is present.");
  }\<close>
\<close>

definition Option_unwrap :: "Option \<Rightarrow> jsval completion" where
  "Option_unwrap this =
     (if isSome (slot this) then Returns (slot this)
      else Throws (JError ''Error''
             (''Attempted to unwrap a '' @ [CHR 0x27] @ ''None'' @ [CHR 0x27]
              @ '' Option. No value is present.'')))"

text \<open>
  The other methods of the class, each as its body has it.
  \<^verbatim>\<open>
  isSomeAnd(func) { if (isSome(this.value)) { return func(this.value); } return false; }
  expect(message) { if (isSome(this.value)) { return this.value; } throw new Error(message); }
  unwrapOr(_default) { if (isSome(this.value)) { return this.value; } return _default; }
  unwrapOrElse(func) { if (isSome(this.value)) { return this.value; } return func(); }
  andThen(transform) { if (isSome(this.value)) { return transform(this.value); } return None(); }
  and(other) { if (isSome(this.value)) { return other; } return new Option(undefined); }
  or(other) { if (isSome(this.value)) { return this; } return other; }
  xor(other) {
      const some = isSome(this.value);
      if (some === other.isSome()) { return new Option(undefined); }
      if (some) { return this; }
      return other;
  }
  okOr(error) {
      const value = this.value;
      if (isSome(value)) { return new Result({ value }); } else { return new Result({ error }); }
  }
  okOrElse(func) {
      const value = this.value;
      if (isSome(value)) { return new Result({ value }); }
      else { const error = func(); return new Result({ error }); }
  }\<close>
  A callback of no argument is given by what its call does.
\<close>

definition Option_isSomeAnd :: "Option \<Rightarrow> (jsval \<Rightarrow> jsval completion) \<Rightarrow> jsval completion" where
  "Option_isSomeAnd this func =
     (if isSome (slot this) then func (slot this) else Returns (JBool False))"

definition Option_expect :: "Option \<Rightarrow> string \<Rightarrow> jsval completion" where
  "Option_expect this message =
     (if isSome (slot this) then Returns (slot this) else Throws (JError ''Error'' message))"

definition Option_unwrapOr :: "Option \<Rightarrow> jsval \<Rightarrow> jsval" where
  "Option_unwrapOr this default_value = (if isSome (slot this) then slot this else default_value)"

definition Option_unwrapOrElse :: "Option \<Rightarrow> jsval completion \<Rightarrow> jsval completion" where
  "Option_unwrapOrElse this func = (if isSome (slot this) then Returns (slot this) else func)"

definition Option_andThen ::
  "Option \<Rightarrow> (jsval \<Rightarrow> Option maybe_async completion) \<Rightarrow> Option maybe_async completion" where
  "Option_andThen this transform =
     (if isSome (slot this) then transform (slot this) else Returns (Immediate None_js))"

definition Option_and :: "Option \<Rightarrow> Option \<Rightarrow> Option" where
  "Option_and this other = (if isSome (slot this) then other else new_Option JUndefined)"

definition Option_or :: "Option \<Rightarrow> Option \<Rightarrow> Option" where
  "Option_or this other = (if isSome (slot this) then this else other)"

definition Option_xor :: "Option \<Rightarrow> Option \<Rightarrow> Option" where
  "Option_xor this other =
     (let some = isSome (slot this) in
      if some = Option_isSome other then new_Option JUndefined
      else if some then this
      else other)"

definition Option_okOr :: "Option \<Rightarrow> jsval \<Rightarrow> Result" where
  "Option_okOr this error =
     (if isSome (slot this) then Result (OutcomeOk (slot this)) else Result (OutcomeErr error))"

definition Option_okOrElse :: "Option \<Rightarrow> jsval completion \<Rightarrow> Result completion" where
  "Option_okOrElse this func =
     (if isSome (slot this) then Returns (Result (OutcomeOk (slot this)))
      else (case func of
              Throws e \<Rightarrow> Throws e
            | Returns error \<Rightarrow> Returns (Result (OutcomeErr error))))"

text \<open>
  The static \<^verbatim>\<open>Option.From\<close> has no receiver: it makes a new Option from a value, or
  from what a Promise settles to, inside a Result.
  \<^verbatim>\<open>
  static From(input) {
      if (input instanceof Promise) {
          return input.then(result => Ok(new Option(result))).catch((err) => Err(err));
      } else { return Ok(new Option(input)); }
  }\<close>
\<close>

datatype Result_of_Option = Ok_Option Option | Err_Option jsval

definition Option_From :: "jsval \<Rightarrow> Result_of_Option maybe_async" where
  "Option_From input =
     (case input of
        JPromise p \<Rightarrow>
          Pending (promise_catch
            (promise_then p (\<lambda>result. Returns (Ok_Option (new_Option result))))
            (\<lambda>err. Returns (Err_Option err)))
      | _ \<Rightarrow> Immediate (Ok_Option (new_Option input)))"

subsection \<open>Method calls and the receiver\<close>

text \<open>
  To say which methods change the object they are called on, a call of any instance
  method of the class is given with its arguments, and \<open>Option_call\<close> returns what the
  call returns or throws, together with the receiver's field after the call. The second
  component follows the assignments to \<^verbatim>\<open>this.value\<close> in the method's body: there is
  one in \<^verbatim>\<open>take\<close> and none in any other method (the constructor's assignment
  initializes a new object). Callbacks are functions of the value they are given; the
  Option passed to \<^verbatim>\<open>and\<close>, \<^verbatim>\<open>or\<close> and \<^verbatim>\<open>xor\<close> is only read.
\<close>

datatype Option_method =
    Call_isSome
  | Call_isNone
  | Call_isSomeAnd "jsval \<Rightarrow> jsval completion"
  | Call_unwrap
  | Call_expect string
  | Call_unwrapOr jsval
  | Call_unwrapOrElse "jsval completion"
  | Call_map "jsval \<Rightarrow> jsval completion"
  | Call_andThen "jsval \<Rightarrow> Option maybe_async completion"
  | Call_and Option
  | Call_or Option
  | Call_xor Option
  | Call_take
  | Call_okOr jsval
  | Call_okOrElse "jsval completion"

datatype method_result =
    BoolResult bool
  | ValueResult jsval
  | OptionResult Option
  | OptionOrPromise "Option maybe_async"
  | ResultResult Result

fun Option_call :: "Option \<Rightarrow> Option_method \<Rightarrow> method_result completion \<times> Option" where
  "Option_call this Call_isSome = (Returns (BoolResult (Option_isSome this)), this)"
| "Option_call this Call_isNone = (Returns (BoolResult (Option_isNone this)), this)"
| "Option_call this (Call_isSomeAnd func) =
     (map_completion ValueResult (Option_isSomeAnd this func), this)"
| "Option_call this Call_unwrap = (map_completion ValueResult (Option_unwrap this), this)"
| "Option_call this (Call_expect message) =
     (map_completion ValueResult (Option_expect this message), this)"
| "Option_call this (Call_unwrapOr default_value) =
     (Returns (ValueResult (Option_unwrapOr this default_value)), this)"
| "Option_call this (Call_unwrapOrElse func) =
     (map_completion ValueResult (Option_unwrapOrElse this func), this)"
| "Option_call this (Call_map func) = (map_completion OptionOrPromise (Option_map this func), this)"
| "Option_call this (Call_andThen transform) =
     (map_completion OptionOrPromise (Option_andThen this transform), this)"
| "Option_call this (Call_and other) = (Returns (OptionResult (Option_and this other)), this)"
| "Option_call this (Call_or other) = (Returns (OptionResult (Option_or this other)), this)"
| "Option_call this (Call_xor other) = (Returns (OptionResult (Option_xor this other)), this)"
| "Option_call this Call_take =
     (Returns (OptionResult (fst (Option_take this))), snd (Option_take this))"
| "Option_call this (Call_okOr error) = (Returns (ResultResult (Option_okOr this error)), this)"
| "Option_call this (Call_okOrElse func) =
     (map_completion ResultResult (Option_okOrElse this func), this)"

section \<open>The pattern-matching dispatcher (src/rustify/index.ts)\<close>

text \<open>
  \<^verbatim>\<open>
  export type OptionMatcher<T, R> = { Some: (value: T) => R; None: () => R; };
  export type ResultMatcher<T, E, R> = { Ok: (value: T) => R; Err: (err: E) => R; };
  const isOptionMatch = (o) => o instanceof Option;
  const isResultMatch = (o) => o instanceof Result;
  const isOptionMatcher = (m) => "Some" in m && "None" in m;
  const isResultMatcher = (m) => "Ok" in m && "Err" in m;\<close>
  The matcher is an object that has each of the four handlers or not; a handler may throw.
  The input is an Option, a Result, or anything else.
\<close>

record 'r Matcher =
  Some_handler :: "(jsval \<Rightarrow> 'r completion) option"
  None_handler :: "'r completion option"
  Ok_handler :: "(jsval \<Rightarrow> 'r completion) option"
  Err_handler :: "(jsval \<Rightarrow> 'r completion) option"

datatype match_input = OptionInput Option | ResultInput Result | OtherInput jsval

fun isOptionMatch :: "match_input \<Rightarrow> bool" where
  "isOptionMatch (OptionInput opt) = True"
| "isOptionMatch i = False"

fun isResultMatch :: "match_input \<Rightarrow> bool" where
  "isResultMatch (ResultInput res) = True"
| "isResultMatch i = False"

definition isOptionMatcher :: "'r Matcher \<Rightarrow> bool" where
  "isOptionMatcher m = (in_js (Some_handler m) \<and> in_js (None_handler m))"

definition isResultMatcher :: "'r Matcher \<Rightarrow> bool" where
  "isResultMatcher m = (in_js (Ok_handler m) \<and> in_js (Err_handler m))"

definition MatchError :: jsval where
  "MatchError = JError ''Error''
     (''MatchError: Input value type does not align with the provided handler, ''
      @ ''or a required handler function (e.g., Some, None, Ok, Err) is missing.'')"

text \<open>
  \<^verbatim>\<open>
  export function match(input, matcher) {
      if (isOptionMatch(input) && isOptionMatcher(matcher)) {
          const { Some, None } = matcher;
          if (input.isSome()) { return Some(input.unwrap()); }
          return None();
      }
      if (isResultMatch(input) && isResultMatcher(matcher)) {
          const { Ok, Err } = matcher;
          if (input.isOk()) { return Ok(input.unwrap()); }
          return Err(input.unwrapErr());
      }
      throw new Error('MatchError: ...');
  }\<close>
\<close>

definition match_js :: "match_input \<Rightarrow> 'r Matcher \<Rightarrow> 'r completion" where
  "match_js input matcher =
     (if isOptionMatch input \<and> isOptionMatcher matcher then
        (case (input, Some_handler matcher, None_handler matcher) of
           (OptionInput opt, Some some_h, Some none_h) \<Rightarrow>
             (if Option_isSome opt then bind_completion (Option_unwrap opt) some_h
              else none_h)
         | _ \<Rightarrow> Throws MatchError)
      else if isResultMatch input \<and> isResultMatcher matcher then
        (case (input, Ok_handler matcher, Err_handler matcher) of
           (ResultInput res, Some ok_h, Some err_h) \<Rightarrow>
             (if Result_isOk res then bind_completion (Result_unwrap res) ok_h
              else bind_completion (Result_unwrapErr res) err_h)
         | _ \<Rightarrow> Throws MatchError)
      else Throws MatchError)"

text \<open>
  Two matchers to run the dispatcher on:
  \<^verbatim>\<open>{Some: x => x * 2, None: () => 0}\<close> (on Numbers) and
  \<^verbatim>\<open>{Ok: v => v, Err: e => e}\<close>.
\<close>

definition double :: "jsval \<Rightarrow> jsval completion" where
  "double x = Returns (case x of JNum n \<Rightarrow> JNum (n * 2) | _ \<Rightarrow> JUndefined)"

definition double_or_zero :: "jsval Matcher" where
  "double_or_zero =
     \<lparr>Some_handler = Some double,
      None_handler = Some (Returns (JNum 0)),
      Ok_handler = None,
      Err_handler = None\<rparr>"

definition give_back :: "jsval Matcher" where
  "give_back =
     \<lparr>Some_handler = None,
      None_handler = None,
      Ok_handler = Some Returns,
      Err_handler = Some Returns\<rparr>"

section \<open>Properties of Option\<close>

lemma new_Option_absent [simp]:
  "new_Option JUndefined = Option JUndefined" "new_Option JNull = Option JUndefined"
  by (simp_all add: new_Option_def)

lemma new_Option_present:
  "v \<noteq> JUndefined \<Longrightarrow> v \<noteq> JNull \<Longrightarrow> new_Option v = Option v"
  by (simp add: new_Option_def)

lemma new_Option_idem: "new_Option (slot (new_Option v)) = new_Option v"
  by (simp add: new_Option_def)

text \<open>
  Claim C9. \<^verbatim>\<open>take\<close> is the single in-place mutation of Option: a call of any other
  instance method, with any arguments, leaves the receiver as it was, whether the call
  returns or throws. For every Option (every Option is made by the constructor),
  \<^verbatim>\<open>take()\<close> returns a new Option with the receiver's prior slot contents and leaves
  the receiver absent: from an absent Option it returns an absent Option, from an Option
  holding \<open>v\<close> it returns an Option holding \<open>v\<close>.
\<close>

theorem Option_take_single_mutation:
  "(call \<noteq> Call_take \<longrightarrow> snd (Option_call this call) = this)
   \<and> snd (Option_call this Call_take) = None_js
   \<and> Option_call (new_Option v) Call_take = (Returns (OptionResult (new_Option v)), None_js)
   \<and> fst (Option_take (new_Option v)) = new_Option v
   \<and> snd (Option_take (new_Option v)) = None_js
   \<and> Option_isNone (snd (Option_take (new_Option v)))
   \<and> Option_take None_js = (None_js, None_js)
   \<and> (if v \<noteq> JUndefined \<and> v \<noteq> JNull
       then Option_isSome (Some_js v) \<and> Option_isSome (fst (Option_take (Some_js v)))
            \<and> slot (fst (Option_take (Some_js v))) = v
       else Option_isNone (Some_js v) \<and> Option_isNone (fst (Option_take (Some_js v))))"
  by (cases call)
     (simp_all add: Option_take_def None_js_def Some_js_def new_Option_def
        Option_isNone_def Option_isSome_def isNone_def isSome_def)

theorem Option_take_single_mutation_witness:
  "Call_unwrapOr (JNum 0) \<noteq> Call_take
   \<and> snd (Option_call (Some_js (JNum 5)) (Call_unwrapOr (JNum 0))) = Some_js (JNum 5)
   \<and> fst (Option_call (Some_js (JNum 5)) (Call_unwrapOr (JNum 0))) = Returns (ValueResult (JNum 5))
   \<and> Option_call (Some_js (JNum 5)) Call_take
       = (Returns (OptionResult (Some_js (JNum 5))), None_js)
   \<and> None_js \<noteq> Some_js (JNum 5)"
proof -
  have other: "Call_unwrapOr (JNum 0) \<noteq> Call_take"
    by simp
  have made: "Some_js (JNum 5) = new_Option (JNum 5)"
    by (simp add: Some_js_def)
  from Option_take_single_mutation [of "Call_unwrapOr (JNum 0)" "Some_js (JNum 5)" "JNum 5"]
    other made
  show ?thesis
    by (simp add: Option_unwrapOr_def Some_js_def None_js_def new_Option_def isSome_def)
qed

text \<open>
  Claim C10. When an Option holds a value and the synchronous transform returns
  \<^verbatim>\<open>null\<close> or \<^verbatim>\<open>undefined\<close> for it, \<^verbatim>\<open>map\<close> returns (immediately) an Option
  that reports \<^verbatim>\<open>isNone()\<close>: the result goes through the collapsing constructor.
\<close>

theorem Option_map_collapses_absence_marker:
  assumes "Option_isSome this"
    and "func (slot this) = Returns r"
    and "r = JNull \<or> r = JUndefined"
  shows "\<exists>opt. Option_map this func = Returns (Immediate opt) \<and> Option_isNone opt
           \<and> \<not> Option_isSome opt"
  using assms
  by (auto simp: Option_map_def Option_isSome_def Option_isNone_def isNone_def isSome_def)

theorem Option_map_collapses_absence_marker_witness:
  "Option_isSome (Some_js (JNum 5))
   \<and> (\<lambda>x. Returns JNull) (slot (Some_js (JNum 5))) = Returns JNull
   \<and> (\<exists>opt. Option_map (Some_js (JNum 5)) (\<lambda>x. Returns JNull) = Returns (Immediate opt)
          \<and> Option_isNone opt \<and> \<not> Option_isSome opt)"
proof -
  have some: "Option_isSome (Some_js (JNum 5))"
    by (simp add: Option_isSome_def Some_js_def new_Option_def isSome_def)
  have ret: "(\<lambda>x. Returns JNull) (slot (Some_js (JNum 5))) = Returns JNull"
    by simp
  from Option_map_collapses_absence_marker [OF some ret] some show ?thesis
    by simp
qed

section \<open>Properties of the Error Normalizer\<close>

text \<open>The policy, branch by branch, in the order of the source.\<close>

lemma convertErrorToString_string: "convertErrorToString (JStr s) = Returns (JStr s)"
  by (simp add: convertErrorToString_def)

lemma convertErrorToString_Error: "convertErrorToString (JError n m) = Returns (JStr m)"
  by (simp add: convertErrorToString_def)

lemma convertErrorToString_message_object:
  "map_of ps ''message'' = Some (JStr m) \<Longrightarrow> convertErrorToString (JObj ps) = Returns (JStr m)"
  by (simp add: convertErrorToString_def)

lemma convertErrorToString_serialized:
  assumes "typeof_js err \<noteq> ''string''" and "\<not> instanceof_Error err"
    and "\<not> (has_message err \<and> typeof_js (get_message err) = ''string'')"
    and "JSON_stringify err = Returns r"
  shows "convertErrorToString err = Returns r"
  using assms by (auto simp: convertErrorToString_def)

lemma convertErrorToString_fallback:
  assumes "typeof_js err \<noteq> ''string''" and "\<not> instanceof_Error err"
    and "\<not> (has_message err \<and> typeof_js (get_message err) = ''string'')"
    and "JSON_stringify err = Throws e"
  shows "convertErrorToString err =
           (case String_js err of Returns s \<Rightarrow> Returns (JStr s) | Throws e' \<Rightarrow> Throws e')"
  using assms by (auto simp: convertErrorToString_def)

text \<open>
  Claim C2. The normalizer is meant to be total and to give a string. Two inputs where it
  is not: for the array \<^verbatim>\<open>[1n, Symbol()]\<close>, \<^verbatim>\<open>JSON.stringify\<close> throws on the BigInt
  and the fallback \<^verbatim>\<open>String(err)\<close> throws on the Symbol, inside the \<^verbatim>\<open>catch\<close>
  block, so the TypeError escapes; for \<^verbatim>\<open>undefined\<close>, \<^verbatim>\<open>JSON.stringify\<close> returns
  \<^verbatim>\<open>undefined\<close>, which is returned in place of a string.
\<close>

theorem convertErrorToString_throws_on_bigint_and_symbol:
  "convertErrorToString (JArr [JBigInt 1, JSymbol []])
     = Throws (TypeError ''Cannot convert a Symbol value to a string'')
   \<and> JSON_stringify (JArr [JBigInt 1, JSymbol []])
       = Throws (TypeError ''Do not know how to serialize a BigInt'')
   \<and> String_js (JArr [JBigInt 1, JSymbol []])
       = Throws (TypeError ''Cannot convert a Symbol value to a string'')
   \<and> convertErrorToString JUndefined = Returns JUndefined"
  by (simp add: convertErrorToString_def JSON_stringify_def String_js_def)

section \<open>Properties of the builders\<close>

text \<open>
  Claim C1, as the code has it. When the operation returns a value that is not a
  Promise, both builders return the success wrapper of that value at once; when it
  returns a Promise that fulfils, both return a pending wrapper that settles to the
  success wrapper of the resolved value. On failure \<^verbatim>\<open>buildResult\<close> wraps the thrown
  value or the rejection reason itself: at once after a synchronous throw, as the
  settlement of the pending wrapper after a rejection. \<^verbatim>\<open>buildSerializableOutcome\<close>
  hands the thrown value or the rejection reason to the Error Normalizer, and, whenever
  the normalizer returns for it, wraps what the normalizer returned: at once after a
  synchronous throw, as the settlement of the pending wrapper after a rejection.
\<close>

theorem builders_capture_outcome:
  "(\<not> instanceof_Promise v \<longrightarrow>
      buildSerializableOutcome (Returns v) = Returns (Immediate (serializable_ok v))
      \<and> buildResult (Returns v) = Immediate (Ok v))
   \<and> buildSerializableOutcome (Returns (JPromise (Fulfilled v)))
       = Returns (Pending (Fulfilled (serializable_ok v)))
   \<and> buildResult (Returns (JPromise (Fulfilled v))) = Pending (Fulfilled (Ok v))
   \<and> (convertErrorToString e = Returns s \<longrightarrow>
        buildSerializableOutcome (Throws e) = Returns (Immediate (serializable_error s))
        \<and> buildSerializableOutcome (Returns (JPromise (Rejected e)))
            = Returns (Pending (Fulfilled (serializable_error s))))
   \<and> buildResult (Throws e) = Immediate (Err e)
   \<and> buildResult (Returns (JPromise (Rejected e))) = Pending (Fulfilled (Err e))"
  by (cases v)
     (simp_all add: buildSerializableOutcome_def buildResult_def promise_then_def promise_catch_def)

theorem builders_capture_outcome_witness:
  "\<not> instanceof_Promise (JNum 42)
   \<and> convertErrorToString (JError ''Error'' ''x'') = Returns (JStr ''x'')
   \<and> buildSerializableOutcome (Returns (JNum 42)) = Returns (Immediate (serializable_ok (JNum 42)))
   \<and> buildResult (Returns (JNum 42)) = Immediate (Ok (JNum 42))
   \<and> buildSerializableOutcome (Throws (JError ''Error'' ''x''))
       = Returns (Immediate (serializable_error (JStr ''x'')))
   \<and> buildSerializableOutcome (Returns (JPromise (Rejected (JError ''Error'' ''x''))))
       = Returns (Pending (Fulfilled (serializable_error (JStr ''x''))))
   \<and> buildResult (Throws (JError ''Error'' ''x'')) = Immediate (Err (JError ''Error'' ''x''))"
proof -
  have sync: "\<not> instanceof_Promise (JNum 42)"
    by simp
  have norm: "convertErrorToString (JError ''Error'' ''x'') = Returns (JStr ''x'')"
    by (simp add: convertErrorToString_def)
  from builders_capture_outcome [of "JNum 42" "JError ''Error'' ''x''" "JStr ''x''"] sync norm
  show ?thesis
    by simp
qed

text \<open>
  Claim C1 as stated fails for \<^verbatim>\<open>buildResult\<close>: the failure it wraps for a thrown or
  rejected \<^verbatim>\<open>new Error("x")\<close> is the Error object, not the normalizer's string.
\<close>

theorem buildResult_failure_not_normalized:
  "buildResult (Throws (JError ''Error'' ''x'')) = Immediate (Err (JError ''Error'' ''x''))
   \<and> buildResult (Returns (JPromise (Rejected (JError ''Error'' ''x''))))
       = Pending (Fulfilled (Err (JError ''Error'' ''x'')))
   \<and> convertErrorToString (JError ''Error'' ''x'') = Returns (JStr ''x'')
   \<and> Err (JError ''Error'' ''x'') \<noteq> Err (JStr ''x'')"
  by (simp add: buildResult_def promise_then_def promise_catch_def convertErrorToString_def
        Err_def OutcomeErr_def)

section \<open>Properties of the tuple bridge\<close>

text \<open>
  Claim C3, as the code has it. Success gives the tuple of the value and \<^verbatim>\<open>null\<close>;
  failure (a synchronous throw, or the rejection of a returned Promise for
  \<^verbatim>\<open>goify\<close>) gives the tuple of \<^verbatim>\<open>null\<close> and the caught value itself, unchanged.
  So \<^verbatim>\<open>goifySync(() => { throw new Error("x") })\<close> gives \<^verbatim>\<open>null\<close> and that Error,
  whose message is \<^verbatim>\<open>"x"\<close>.
\<close>

theorem goify_tuple_contract:
  "goifySync (Returns v) = (v, JNull)
   \<and> goifySync (Throws e) = (JNull, e)
   \<and> (\<not> instanceof_Promise v \<longrightarrow> goify (Returns v) = Immediate (v, JNull))
   \<and> goify (Returns (JPromise (Fulfilled v))) = Pending (Fulfilled (v, JNull))
   \<and> goify (Throws e) = Immediate (JNull, e)
   \<and> goify (Returns (JPromise (Rejected e))) = Pending (Fulfilled (JNull, e))
   \<and> new_Error (JStr ''x'') = Returns (JError ''Error'' ''x'')
   \<and> goifySync (Throws (JError ''Error'' ''x'')) = (JNull, JError ''Error'' ''x'')
   \<and> get_message (JError ''Error'' ''x'') = JStr ''x''"
  by (cases v)
     (simp_all add: goify_def goifySync_def promise_then_def promise_catch_def new_Error_def)

theorem goify_tuple_contract_witness:
  "\<not> instanceof_Promise (JNum 1)
   \<and> goify (Returns (JNum 1)) = Immediate (JNum 1, JNull)
   \<and> goifySync (Returns (JNum 1)) = (JNum 1, JNull)
   \<and> goifySync (Throws (JStr ''boom'')) = (JNull, JStr ''boom'')"
proof -
  have sync: "\<not> instanceof_Promise (JNum 1)"
    by simp
  from goify_tuple_contract [of "JNum 1" "JStr ''boom''"] sync show ?thesis
    by simp
qed

text \<open>
  Claim C3 as stated fails where it says the failure is normalized: a thrown
  \<^verbatim>\<open>{message: "x"}\<close> comes back as that object, while the Error Normalizer would make
  it the string \<^verbatim>\<open>"x"\<close>. And \<^verbatim>\<open>goifySync\<close> does not look at a returned
  Promise: one that rejects is handed back in the value slot.
\<close>

theorem goify_failure_not_normalized:
  "goifySync (Throws (JObj [(''message'', JStr ''x'')])) = (JNull, JObj [(''message'', JStr ''x'')])
   \<and> goify (Returns (JPromise (Rejected (JObj [(''message'', JStr ''x'')]))))
       = Pending (Fulfilled (JNull, JObj [(''message'', JStr ''x'')]))
   \<and> convertErrorToString (JObj [(''message'', JStr ''x'')]) = Returns (JStr ''x'')
   \<and> JObj [(''message'', JStr ''x'')] \<noteq> JStr ''x''
   \<and> goifySync (Returns (JPromise (Rejected (JStr ''x''))))
       = (JPromise (Rejected (JStr ''x'')), JNull)"
  by (simp add: goify_def goifySync_def promise_then_def promise_catch_def convertErrorToString_def)

section \<open>Properties of Result\<close>

lemma isOk_OutcomeOk [simp]: "isOk (OutcomeOk v)" "\<not> isErr (OutcomeOk v)"
  by (simp_all add: isOk_def isErr_def OutcomeOk_def)

lemma isOk_OutcomeErr [simp]: "\<not> isOk (OutcomeErr e)" "isErr (OutcomeErr e)"
  by (simp_all add: isOk_def isErr_def OutcomeErr_def)

lemma get_value_OutcomeOk [simp]: "get_value (OutcomeOk v) = v"
  by (simp add: get_value_def OutcomeOk_def)

lemma get_error_OutcomeErr [simp]: "get_error (OutcomeErr e) = e"
  by (simp add: get_error_def OutcomeErr_def)

lemma isOk_serializable [simp]:
  "isOk (serializable_ok v)" "\<not> isOk (serializable_error e)"
  "get_value (serializable_ok v) = v" "get_error (serializable_error e) = e"
  by (simp_all add: isOk_def serializable_ok_def serializable_error_def get_value_def get_error_def)

text \<open>
  Where \<^verbatim>\<open>unwrap\<close> does what it is written to do: \<^verbatim>\<open>Ok(v).unwrap()\<close> returns
  \<open>v\<close> and \<^verbatim>\<open>Ok(v).isOk()\<close> is true; on a failure \<^verbatim>\<open>Err(e)\<close> it never returns,
  and when \<open>e\<close> has a string conversion the thrown Error's message is
  \<^verbatim>\<open>Attempted to unwrap an 'Err' result: \<close> followed by that string.
\<close>

theorem Result_unwrap_contract:
  "Result_unwrap (Ok v) = Returns v
   \<and> Result_isOk (Ok v)
   \<and> Result_unwrap (Err e) \<noteq> Returns w
   \<and> (ToString e = Returns s \<longrightarrow>
        Result_unwrap (Err e) = Throws (JError ''Error'' (unwrap_message s)))"
  by (simp add: Result_unwrap_def Result_isOk_def Ok_def Err_def split: completion.split)

theorem Result_unwrap_contract_witness:
  "ToString (JStr ''boom'') = Returns ''boom''
   \<and> Result_unwrap (Err (JStr ''boom''))
       = Throws (JError ''Error'' (unwrap_message ''boom''))
   \<and> unwrap_message ''boom'' = ''Attempted to unwrap an '' @ [CHR 0x27] @ ''Err'' @ [CHR 0x27] @ '' result: boom''
   \<and> Result_unwrap (Ok (JNum 7)) = Returns (JNum 7)"
proof -
  have str: "ToString (JStr ''boom'') = Returns ''boom''"
    by simp
  from Result_unwrap_contract [of "JNum 7" "JStr ''boom''" _ "''boom''"] str show ?thesis
    by (simp add: unwrap_message_def)
qed

text \<open>
  Claim C4. On a failure \<^verbatim>\<open>unwrap()\<close> is to throw an Error that carries the
  stringified failure value, and its body sets out to:
  \<^verbatim>\<open>throw new Error(`Attempted to unwrap an 'Err' result: ${this.outcome.error}`)\<close>.
  For \<^verbatim>\<open>Err(Symbol("s"))\<close> it does not get there: the template literal converts the
  Symbol with ToString, which throws a TypeError before the Error is made, and that
  TypeError is what the caller gets.
\<close>


theorem Result_unwrap_Err_Symbol:
  "Result_unwrap (Err (JSymbol ''s''))
     = Throws (TypeError ''Cannot convert a Symbol value to a string'')
   \<and> ToString (JSymbol ''s'') = Throws (TypeError ''Cannot convert a Symbol value to a string'')"
  by (simp add: Result_unwrap_def Err_def)

text \<open>
  Claim C5. A success in wire form, \<^verbatim>\<open>{value: v, ok: true}\<close>, goes through
  \<^verbatim>\<open>Result.From\<close> to a Result whose \<^verbatim>\<open>unwrap()\<close> returns \<open>v\<close>; and
  \<^verbatim>\<open>Result.From({error: x, ok: false})\<close> for a string \<open>x\<close> is a failure whose payload
  is an Error with message \<open>x\<close>.
\<close>

theorem Result_From_round_trip:
  "Result_From (Immediate (serializable_ok v)) = Returns (Immediate (Ok v))
   \<and> call_on_Result (Result_From (Immediate (serializable_ok v))) Result_unwrap = Returns v
   \<and> Result_From (Immediate (serializable_error (JStr x)))
       = Returns (Immediate (Err (JError ''Error'' x)))
   \<and> Result_isErr (Err (JError ''Error'' x))
   \<and> \<not> Result_isOk (Err (JError ''Error'' x))
   \<and> call_on_Result (Result_From (Immediate (serializable_error (JStr x)))) Result_unwrapErr
       = Returns (JError ''Error'' x)
   \<and> instanceof_Error (JError ''Error'' x)
   \<and> get_message (JError ''Error'' x) = JStr x"
  by (simp add: Result_From_def call_on_Result_def new_Error_def Ok_def Err_def
        Result_unwrap_def Result_unwrapErr_def Result_isErr_def Result_isOk_def)

text \<open>
  Claim C6. \<^verbatim>\<open>andThen\<close> is associative for synchronous Result-returning functions
  \<open>f\<close> and \<open>g\<close> (which may throw): \<^verbatim>\<open>r.andThen(f).andThen(g)\<close> and
  \<^verbatim>\<open>r.andThen(x => f(x).andThen(g))\<close> have the same outcome. On a failure both give
  back the failure, whatever \<open>f\<close> and \<open>g\<close> are, so neither is called.
\<close>

theorem Result_andThen_associative:
  "call_on_Result (Result_andThen r (synchronous f)) (\<lambda>r'. Result_andThen r' (synchronous g))
     = Result_andThen r (\<lambda>x. bind_completion (f x) (\<lambda>r'. Result_andThen r' (synchronous g)))
   \<and> call_on_Result (Result_andThen (Err e) (synchronous f)) (\<lambda>r'. Result_andThen r' (synchronous g))
       = Returns (Immediate (Err e))
   \<and> Result_andThen (Err e) (\<lambda>x. bind_completion (f x) (\<lambda>r'. Result_andThen r' (synchronous g)))
       = Returns (Immediate (Err e))"
  by (simp add: Result_andThen_def call_on_Result_def synchronous_def bind_completion_def Err_def
        split: completion.split)

text \<open>
  Claim C7, as the code has it. \<^verbatim>\<open>map\<close> with the identity gives back an equal Result
  for every success whose value is not a Promise, and for every failure; on a failure
  the transform is not applied, whatever it is.
\<close>

theorem Result_map_identity:
  "(\<not> instanceof_Promise v \<longrightarrow>
      Result_map (Ok v) (\<lambda>x. Returns x) = Returns (Immediate (Ok v)))
   \<and> Result_map (Err e) transform = Returns (Immediate (Err e))"
  by (cases v) (simp_all add: Result_map_def Ok_def Err_def)

theorem Result_map_identity_witness:
  "\<not> instanceof_Promise (JNum 1)
   \<and> Result_map (Ok (JNum 1)) (\<lambda>x. Returns x) = Returns (Immediate (Ok (JNum 1)))
   \<and> Result_map (Err (JStr ''boom'')) (\<lambda>x. Throws x) = Returns (Immediate (Err (JStr ''boom'')))"
proof -
  have sync: "\<not> instanceof_Promise (JNum 1)"
    by simp
  from Result_map_identity [of "JNum 1" "JStr ''boom''" "\<lambda>x. Throws x"] sync show ?thesis
    by simp
qed

text \<open>
  Claim C7 as stated fails for a success that holds a Promise: the identity hands the
  Promise back, \<^verbatim>\<open>map\<close> takes the transform for an asynchronous one, and the result is
  a Promise of a Result, not a Result.
\<close>

theorem Result_map_identity_on_Promise:
  "Result_map (Ok (JPromise (Fulfilled (JNum 1)))) (\<lambda>x. Returns x)
     = Returns (Pending (Fulfilled (Ok (JNum 1))))
   \<and> Result_map (Ok (JPromise (Fulfilled (JNum 1)))) (\<lambda>x. Returns x)
       \<noteq> Returns (Immediate (Ok (JPromise (Fulfilled (JNum 1)))))"
  by (simp add: Result_map_def Ok_def promise_then_def)

section \<open>Properties of the dispatcher\<close>

text \<open>
  Claim C8. With both Option handlers present, \<^verbatim>\<open>match\<close> on an Option gives
  \<^verbatim>\<open>Some(value)\<close> when it holds a value and \<^verbatim>\<open>None()\<close> when it is absent; with both
  Result handlers present, on a Result it gives \<^verbatim>\<open>Ok(value)\<close> on success and
  \<^verbatim>\<open>Err(error)\<close> on failure. It throws the MatchError when the input is neither an
  Option nor a Result, and when the matcher lacks a handler of the pair for the input.
\<close>

theorem match_dispatches:
  "(Some_handler m = Some some_h \<and> None_handler m = Some none_h \<longrightarrow>
      match_js (OptionInput opt) m = (if Option_isSome opt then some_h (slot opt) else none_h))
   \<and> (Ok_handler m = Some ok_h \<and> Err_handler m = Some err_h \<longrightarrow>
        match_js (ResultInput (Ok v)) m = ok_h v
        \<and> match_js (ResultInput (Err e)) m = err_h e)
   \<and> match_js (OtherInput x) m = Throws MatchError
   \<and> (Some_handler m = None \<or> None_handler m = None \<longrightarrow>
        match_js (OptionInput opt) m = Throws MatchError)
   \<and> (Ok_handler m = None \<or> Err_handler m = None \<longrightarrow>
        match_js (ResultInput res) m = Throws MatchError)"
  by (auto simp: match_js_def isOptionMatcher_def isResultMatcher_def bind_completion_def
        Option_unwrap_def Option_isSome_def Result_isOk_def Result_unwrap_def Result_unwrapErr_def
        Ok_def Err_def)

theorem match_dispatches_witness:
  "match_js (OptionInput (Some_js (JNum 5))) double_or_zero = Returns (JNum 10)
   \<and> match_js (OptionInput None_js) double_or_zero = Returns (JNum 0)
   \<and> match_js (ResultInput (Ok (JNum 5))) give_back = Returns (JNum 5)
   \<and> match_js (ResultInput (Err (JStr ''boom''))) give_back = Returns (JStr ''boom'')
   \<and> match_js (ResultInput (Ok (JNum 5))) double_or_zero = Throws MatchError
   \<and> match_js (OptionInput (Some_js (JNum 5))) give_back = Throws MatchError
   \<and> match_js (OtherInput (JNum 5)) double_or_zero = Throws MatchError"
proof -
  have option_handlers: "Some_handler double_or_zero = Some double"
    "None_handler double_or_zero = Some (Returns (JNum 0))"
    "Ok_handler double_or_zero = None"
    by (simp_all add: double_or_zero_def)
  have result_handlers: "Ok_handler give_back = Some Returns"
    "Err_handler give_back = Some Returns"
    "Some_handler give_back = None"
    by (simp_all add: give_back_def)
  have present: "Option_isSome (Some_js (JNum 5))" "slot (Some_js (JNum 5)) = JNum 5"
    "\<not> Option_isSome None_js"
    by (simp_all add: Option_isSome_def Some_js_def None_js_def new_Option_def isSome_def)
  from match_dispatches [of double_or_zero double "Returns (JNum 0)" "Some_js (JNum 5)"
      _ _ _ _ "JNum 5" "Ok (JNum 5)"]
    match_dispatches [of double_or_zero double "Returns (JNum 0)" None_js]
    match_dispatches [of give_back _ _ "Some_js (JNum 5)" Returns Returns "JNum 5" "JStr ''boom''"]
    option_handlers result_handlers present
  show ?thesis
    by (simp add: double_def)
qed

end
